theory Spec2Isabelle
  imports Complex_Main "HOL-Library.Product_Lexorder"
begin

section \<open>Strings\<close>

text \<open>
  A Python \<open>str\<close> is a sequence of Unicode code points, so it is modelled as a list of
  natural numbers. The Hebrew constants of the source are written out as code points;
  ASCII constants are written as literals through \<open>asc\<close>.
\<close>

type_synonym pystr = "nat list"

definition asc :: "string \<Rightarrow> pystr" where
  "asc s = map of_char s"

text \<open>\<open>k in s\<close> on strings: \<open>k\<close> occurs in \<open>s\<close> as a contiguous run.\<close>

fun starts_with :: "pystr \<Rightarrow> pystr \<Rightarrow> bool" where
  "starts_with [] s = True"
| "starts_with (k # ks) [] = False"
| "starts_with (k # ks) (c # cs) = (k = c \<and> starts_with ks cs)"

fun str_in :: "pystr \<Rightarrow> pystr \<Rightarrow> bool" where
  "str_in k [] = starts_with k []"
| "str_in k (c # cs) = (starts_with k (c # cs) \<or> str_in k cs)"

text \<open>
  \<open>str.lower\<close> is a function of the Python library with the Unicode case tables behind
  it. The functions that call it take it as the parameter \<open>lower\<close>, and the general
  theorems hold for every such function. \<open>ascii_lower\<close> is \<open>str.lower\<close> on the strings
  made of ASCII characters and of characters without case (the Hebrew letters among them);
  the evaluations at concrete inputs use it.
\<close>

definition ascii_lower :: "pystr \<Rightarrow> pystr" where
  "ascii_lower s = map (\<lambda>c. if 65 \<le> c \<and> c \<le> 90 then c + 32 else c) s"

text \<open>The characters \<open>str.strip\<close> removes and \<open>\s\<close> matches (\<open>str.isspace\<close>).\<close>

definition isspace :: "nat \<Rightarrow> bool" where
  "isspace c \<longleftrightarrow>
     (9 \<le> c \<and> c \<le> 13) \<or> (28 \<le> c \<and> c \<le> 32) \<or> c = 133 \<or> c = 160 \<or> c = 5760 \<or>
     (8192 \<le> c \<and> c \<le> 8202) \<or> c = 8232 \<or> c = 8233 \<or> c = 8239 \<or> c = 8287 \<or> c = 12288"

definition strip :: "pystr \<Rightarrow> pystr" where
  "strip s = rev (dropWhile isspace (rev (dropWhile isspace s)))"

text \<open>\<open>os.path.basename\<close>: what follows the last \<open>/\<close>.\<close>

definition basename :: "pystr \<Rightarrow> pystr" where
  "basename p = rev (takeWhile (\<lambda>c. c \<noteq> 47) (rev p))"

section \<open>Dates\<close>

text \<open>
  A naive \<open>datetime\<close>; the comparison of two of them is lexicographic on the fields,
  which \<open>dt_key\<close> expresses with the lexicographic order on tuples.
\<close>

record datetime =
  dt_year :: int
  dt_month :: int
  dt_day :: int
  dt_hour :: int
  dt_minute :: int
  dt_second :: int
  dt_microsecond :: int

definition dt_key :: "datetime \<Rightarrow> int \<times> int \<times> int \<times> int \<times> int \<times> int \<times> int" where
  "dt_key d = (dt_year d, dt_month d, dt_day d, dt_hour d, dt_minute d, dt_second d,
     dt_microsecond d)"

datatype error = ValueError

definition is_leap :: "int \<Rightarrow> bool" where
  "is_leap y \<longleftrightarrow> y mod 4 = 0 \<and> (y mod 100 \<noteq> 0 \<or> y mod 400 = 0)"

definition days_in_month :: "int \<Rightarrow> int \<Rightarrow> int" where
  "days_in_month y m =
     (if m = 2 then (if is_leap y then 29 else 28)
      else if m = 4 \<or> m = 6 \<or> m = 9 \<or> m = 11 then 30 else 31)"

text \<open>The constructor \<open>datetime(year, month, day)\<close>, which raises on a date out of range.\<close>

definition mk_datetime :: "int \<Rightarrow> int \<Rightarrow> int \<Rightarrow> error + datetime" where
  "mk_datetime y m d =
     (if 1 \<le> y \<and> y \<le> 9999 \<and> 1 \<le> m \<and> m \<le> 12 \<and> 1 \<le> d \<and> d \<le> days_in_month y m
      then Inr \<lparr>dt_year = y, dt_month = m, dt_day = d, dt_hour = 0, dt_minute = 0,
                dt_second = 0, dt_microsecond = 0\<rparr>
      else Inl ValueError)"

section \<open>Floats\<close>

text \<open>
  A Python float: a finite value or one of the special values of IEEE 754, which
  \<open>float\<close> returns for texts such as \<open>nan\<close>, \<open>inf\<close> and \<open>1e999\<close>. The two zeros are
  not told apart; they compare equal.
\<close>

datatype pyfloat = Fin real | PInf | NInf | NaN

fun fneg :: "pyfloat \<Rightarrow> pyfloat" where
  "fneg (Fin a) = Fin (- a)"
| "fneg PInf = NInf"
| "fneg NInf = PInf"
| "fneg NaN = NaN"

fun fabs :: "pyfloat \<Rightarrow> pyfloat" where
  "fabs (Fin a) = Fin \<bar>a\<bar>"
| "fabs PInf = PInf"
| "fabs NInf = PInf"
| "fabs NaN = NaN"

text \<open>
  Addition and subtraction give the exact result rounded to a float. The rounding is the
  parameter \<open>rnd\<close>, from the exact result to a float (an infinity on overflow); the
  general theorems hold for every rounding, with what they need of it as a hypothesis.
\<close>

fun fadd :: "(real \<Rightarrow> pyfloat) \<Rightarrow> pyfloat \<Rightarrow> pyfloat \<Rightarrow> pyfloat" where
  "fadd rnd (Fin a) (Fin b) = rnd (a + b)"
| "fadd rnd NaN y = NaN"
| "fadd rnd x NaN = NaN"
| "fadd rnd PInf NInf = NaN"
| "fadd rnd NInf PInf = NaN"
| "fadd rnd PInf y = PInf"
| "fadd rnd x PInf = PInf"
| "fadd rnd NInf y = NInf"
| "fadd rnd x NInf = NInf"

definition fsub :: "(real \<Rightarrow> pyfloat) \<Rightarrow> pyfloat \<Rightarrow> pyfloat \<Rightarrow> pyfloat" where
  "fsub rnd x y = fadd rnd x (fneg y)"

text \<open>The comparisons \<open>x < y\<close>, \<open>x <= y\<close> and \<open>x > y\<close>: false when one side is \<open>nan\<close>.\<close>

fun flt :: "pyfloat \<Rightarrow> pyfloat \<Rightarrow> bool" where
  "flt NaN y = False"
| "flt x NaN = False"
| "flt (Fin a) (Fin b) = (a < b)"
| "flt x NInf = False"
| "flt PInf y = False"
| "flt NInf y = True"
| "flt (Fin a) PInf = True"


definition fgt :: "pyfloat \<Rightarrow> pyfloat \<Rightarrow> bool" where
  "fgt x y = flt y x"

text \<open>\<open>sum\<close> of floats: addition from the left, starting at 0.\<close>

definition py_sum :: "(real \<Rightarrow> pyfloat) \<Rightarrow> pyfloat list \<Rightarrow> pyfloat" where
  "py_sum rnd xs = foldl (fadd rnd) (Fin 0) xs"


section \<open>Transactions (parsers.py)\<close>

text \<open>
  The dataclass \<open>Transaction\<close>.
  The store keeps the dictionary \<open>to_dict\<close> makes of a transaction, the date as its ISO
  text; \<open>from_dict\<close> reads it back, so a stored dictionary is modelled as the transaction.
\<close>

record transaction =
  date :: datetime
  description :: pystr
  amount :: pyfloat
  currency :: pystr
  source :: pystr
  source_file :: pystr
  card_number :: "pystr option"
  category :: "pystr option"

section \<open>The store (storage.py)\<close>

text \<open>
  The state of a \<open>Storage\<close>: the two lists in memory and what \<open>_save\<close> last wrote to the
  two files (\<open>None\<close> while a file does not exist).
\<close>

record storage =
  transactions :: "transaction list"
  processed_files :: "pystr list"
  transactions_file :: "transaction list option"
  processed_files_file :: "pystr list option"

definition save :: "storage \<Rightarrow> storage" where
  "save s = s\<lparr>transactions_file := Some (transactions s),
              processed_files_file := Some (processed_files s)\<rparr>"

definition mark_file_processed :: "storage \<Rightarrow> pystr \<Rightarrow> storage" where
  "mark_file_processed s file_path =
     (let file_name = basename file_path in
      if file_name \<notin> set (processed_files s)
      then save (s\<lparr>processed_files := processed_files s @ [file_name]\<rparr>)
      else s)"





text \<open>
  \<open>get_transactions\<close>: a filter that is \<open>None\<close> or empty lets everything pass; the
  result is sorted by date with Python's stable sort.
\<close>

definition passes_filters ::
  "datetime option \<Rightarrow> datetime option \<Rightarrow> pystr option \<Rightarrow> pystr option \<Rightarrow> transaction \<Rightarrow> bool" where
  "passes_filters start_date end_date cat src t \<longleftrightarrow>
     \<not> (case start_date of None \<Rightarrow> False | Some d \<Rightarrow> dt_key (date t) < dt_key d) \<and>
     \<not> (case end_date of None \<Rightarrow> False | Some d \<Rightarrow> dt_key (date t) > dt_key d) \<and>
     \<not> (case cat of None \<Rightarrow> False | Some c \<Rightarrow> c \<noteq> [] \<and> category t \<noteq> Some c) \<and>
     \<not> (case src of None \<Rightarrow> False | Some c \<Rightarrow> c \<noteq> [] \<and> source t \<noteq> c)"

definition get_transactions ::
  "storage \<Rightarrow> datetime option \<Rightarrow> datetime option \<Rightarrow> pystr option \<Rightarrow> pystr option
     \<Rightarrow> transaction list" where
  "get_transactions s start_date end_date cat src =
     sort_key (\<lambda>t. dt_key (date t))
       (filter (passes_filters start_date end_date cat src) (transactions s))"

text \<open>
  The issuer names of \<open>_is_credit_card_transfer\<close>: six in Hebrew (Isracard, Max It, Cal,
  Leumi Card, American Express, Diners), then \<open>visa cal\<close> and \<open>mastercard\<close>.
\<close>

definition cc_keywords :: "pystr list" where
  "cc_keywords =
     [[1497, 1513, 1512, 1488, 1499, 1512, 1496],
      [1502, 1511, 1505, 32, 1488, 1497, 1496],
      [1499, 1488, 1500],
      [1500, 1488, 1493, 1502, 1497, 32, 1511, 1488, 1512, 1491],
      [1488, 1502, 1512, 1497, 1511, 1503, 32, 1488, 1511, 1505, 1508, 1512, 1505],
      [1491, 1497, 1497, 1504, 1512, 1505],
      asc ''visa cal'',
      asc ''mastercard'']"

definition is_credit_card_transfer :: "(pystr \<Rightarrow> pystr) \<Rightarrow> transaction \<Rightarrow> bool" where
  "is_credit_card_transfer lower t =
     (if source t \<noteq> asc ''bank'' then False
      else let desc_lower = lower (description t) in
        list_ex (\<lambda>keyword. str_in keyword desc_lower \<or> str_in (lower keyword) desc_lower)
          cc_keywords)"

text \<open>The category key \<open>other\<close> of the source, three Hebrew letters.\<close>

definition other_key :: pystr where
  "other_key = [1488, 1495, 1512]"

definition category_or_other :: "transaction \<Rightarrow> pystr" where
  "category_or_other t =
     (case category t of None \<Rightarrow> other_key | Some c \<Rightarrow> if c = [] then other_key else c)"

text \<open>
  A breakdown is the dictionary from category key to total and member transactions, in
  insertion order.
\<close>

record category_entry =
  entry_total :: pyfloat
  entry_transactions :: "transaction list"

type_synonym breakdown = "(pystr \<times> category_entry) list"

fun add_to_category ::
  "(real \<Rightarrow> pyfloat) \<Rightarrow> pystr \<Rightarrow> pyfloat \<Rightarrow> transaction \<Rightarrow> breakdown \<Rightarrow> breakdown" where
  "add_to_category rnd cat v t [] =
     [(cat, \<lparr>entry_total = fadd rnd (Fin 0) v, entry_transactions = [t]\<rparr>)]"
| "add_to_category rnd cat v t ((k, e) # d) =
     (if k = cat
      then (k, \<lparr>entry_total = fadd rnd (entry_total e) v,
                entry_transactions = entry_transactions e @ [t]\<rparr>) # d
      else (k, e) # add_to_category rnd cat v t d)"

fun by_category ::
  "(real \<Rightarrow> pyfloat) \<Rightarrow> (transaction \<Rightarrow> pyfloat) \<Rightarrow> breakdown \<Rightarrow> transaction list
     \<Rightarrow> breakdown" where
  "by_category rnd f d [] = d"
| "by_category rnd f d (t # ts) =
     by_category rnd f (add_to_category rnd (category_or_other t) (f t) t d) ts"

text \<open>
  The loop that separates income, expenses and excluded transfers; \<open>excl\<close> is the test of
  its first \<open>if\<close>.
\<close>

fun split_transactions ::
  "(transaction \<Rightarrow> bool) \<Rightarrow> transaction list
     \<Rightarrow> transaction list \<times> transaction list \<times> transaction list" where
  "split_transactions excl [] = ([], [], [])"
| "split_transactions excl (t # ts) =
     (let (income, expenses, excluded_transfers) = split_transactions excl ts in
      if excl t then (income, expenses, t # excluded_transfers)
      else if fgt (amount t) (Fin 0) then (t # income, expenses, excluded_transfers)
      else (income, t # expenses, excluded_transfers))"

record monthly_summary =
  sum_year :: int
  sum_month :: int
  total_expenses :: pyfloat
  total_income :: pyfloat
  balance :: pyfloat
  expense_by_category :: breakdown
  income_by_category :: breakdown
  transaction_count :: nat
  excluded_cc_transfers :: "transaction list"
  total_excluded :: pyfloat

text \<open>\<open>get_monthly_summary\<close> from the selected transactions on.\<close>

definition summarize ::
  "(real \<Rightarrow> pyfloat) \<Rightarrow> (pystr \<Rightarrow> pystr) \<Rightarrow> int \<Rightarrow> int \<Rightarrow> bool \<Rightarrow> transaction list
     \<Rightarrow> monthly_summary" where
  "summarize rnd lower year month exclude_cc_transfers txs =
     (let has_bank = list_ex (\<lambda>t. source t = asc ''bank'') txs;
          has_cc = list_ex (\<lambda>t. source t = asc ''credit_card'') txs;
          (income, expenses, excluded_transfers) =
             split_transactions
               (\<lambda>t. exclude_cc_transfers \<and> has_bank \<and> has_cc \<and> is_credit_card_transfer lower t)
               txs;
          expenses_total = py_sum rnd (map (\<lambda>t. fabs (amount t)) expenses);
          income_total = py_sum rnd (map amount income)
      in \<lparr>sum_year = year, sum_month = month,
          total_expenses = expenses_total,
          total_income = income_total,
          balance = fsub rnd income_total expenses_total,
          expense_by_category = by_category rnd (\<lambda>t. fabs (amount t)) [] expenses,
          income_by_category = by_category rnd amount [] income,
          transaction_count = length txs,
          excluded_cc_transfers = excluded_transfers,
          total_excluded = py_sum rnd (map (\<lambda>t. fabs (amount t)) excluded_transfers)\<rparr>)"

text \<open>The two bounds \<open>get_monthly_summary\<close> computes, and the selection it makes with them.\<close>

definition month_range :: "int \<Rightarrow> int \<Rightarrow> error + datetime \<times> datetime" where
  "month_range year month =
     (case mk_datetime year month 1 of
        Inl e \<Rightarrow> Inl e
      | Inr start_date \<Rightarrow>
          (case (if month = 12 then mk_datetime (year + 1) 1 1
                 else mk_datetime year (month + 1) 1) of
             Inl e \<Rightarrow> Inl e
           | Inr end_date \<Rightarrow> Inr (start_date, end_date)))"

definition month_transactions :: "storage \<Rightarrow> int \<Rightarrow> int \<Rightarrow> error + transaction list" where
  "month_transactions s year month =
     (case month_range year month of
        Inl e \<Rightarrow> Inl e
      | Inr (start_date, end_date) \<Rightarrow>
          Inr (get_transactions s (Some start_date) (Some end_date) None None))"

definition get_monthly_summary ::
  "(real \<Rightarrow> pyfloat) \<Rightarrow> (pystr \<Rightarrow> pystr) \<Rightarrow> storage \<Rightarrow> int \<Rightarrow> int \<Rightarrow> bool
     \<Rightarrow> error + monthly_summary" where
  "get_monthly_summary rnd lower s year month exclude_cc_transfers =
     (case month_transactions s year month of
        Inl e \<Rightarrow> Inl e
      | Inr txs \<Rightarrow> Inr (summarize rnd lower year month exclude_cc_transfers txs))"

section \<open>The credit-card parser (parsers.py)\<close>

text \<open>
  A cell of the sheet \<open>pd.read_excel\<close> returns: empty (\<open>NaN\<close>, for which \<open>pd.isna\<close>
  holds), a string, a finite number or a date. The sheet is a list of rows, a row a list
  of cells.
\<close>

datatype cell = NA | Str pystr | Num real | Date datetime

text \<open>
  The library functions the parser calls on cells, as parameters: \<open>str\<close> of a number and
  of a date, \<open>datetime.strptime\<close> (the text, then the format; \<open>None\<close> for its
  \<open>ValueError\<close>) and \<open>float\<close> of a string (\<open>None\<close> for its \<open>ValueError\<close>; the float may
  be \<open>nan\<close> or an infinity).
\<close>

record pylib =
  str_num :: "real \<Rightarrow> pystr"
  str_date :: "datetime \<Rightarrow> pystr"
  strptime :: "pystr \<Rightarrow> pystr \<Rightarrow> datetime option"
  float_of_str :: "pystr \<Rightarrow> pyfloat option"

text \<open>\<open>str(v)\<close>; the source never calls it on an empty cell.\<close>

definition cell_str :: "pylib \<Rightarrow> cell \<Rightarrow> pystr" where
  "cell_str lib v =
     (case v of NA \<Rightarrow> asc ''nan'' | Str s \<Rightarrow> s | Num x \<Rightarrow> str_num lib x
      | Date d \<Rightarrow> str_date lib d)"

text \<open>\<open>row.iloc[k] if len(row) > k else None\<close>; \<open>None\<close> is empty for \<open>pd.isna\<close>.\<close>

definition cell_at :: "cell list \<Rightarrow> nat \<Rightarrow> cell" where
  "cell_at row k = (if k < length row then row ! k else NA)"

definition date_formats :: "pystr list" where
  "date_formats = [asc ''%d.%m.%y'', asc ''%d.%m.%Y'', asc ''%Y-%m-%d'', asc ''%d/%m/%y'',
     asc ''%d/%m/%Y'']"

fun try_formats :: "pylib \<Rightarrow> pystr \<Rightarrow> pystr list \<Rightarrow> datetime option" where
  "try_formats lib date_str [] = None"
| "try_formats lib date_str (fmt # fmts) =
     (case strptime lib date_str fmt of
        Some d \<Rightarrow> Some d
      | None \<Rightarrow> try_formats lib date_str fmts)"

definition parse_date :: "pylib \<Rightarrow> cell \<Rightarrow> datetime option" where
  "parse_date lib date_val =
     (case date_val of
        NA \<Rightarrow> None
      | Date d \<Rightarrow> Some d
      | Str s \<Rightarrow> try_formats lib (strip s) date_formats
      | Num x \<Rightarrow> None)"

text \<open>
  \<open>parse_amount\<close>; the regular expression removes the shekel, dollar and euro signs,
  the comma and white space.
\<close>

definition parse_amount :: "pylib \<Rightarrow> cell \<Rightarrow> pyfloat option" where
  "parse_amount lib amount_val =
     (case amount_val of
        NA \<Rightarrow> None
      | Num x \<Rightarrow> Some (Fin x)
      | Str s \<Rightarrow>
          float_of_str lib
            (filter (\<lambda>c. \<not> (c = 8362 \<or> c = 36 \<or> c = 8364 \<or> c = 44 \<or> isspace c)) s)
      | Date d \<Rightarrow> None)"

fun join_space :: "pystr list \<Rightarrow> pystr" where
  "join_space [] = []"
| "join_space [x] = x"
| "join_space (x # y # ys) = x @ [32] @ join_space (y # ys)"

text \<open>
  The constants of the parser: the two column names that mark a section header
  (purchase date, business name), the totals marker and the placeholder of a business
  not yet posted.
\<close>

definition header_date :: pystr where
  "header_date = [1514, 1488, 1512, 1497, 1498, 32, 1512, 1499, 1497, 1513, 1492]"

definition header_business :: pystr where
  "header_business = [1513, 1501, 32, 1489, 1497, 1514, 32, 1506, 1505, 1511]"

definition totals_marker :: pystr where
  "totals_marker = [1505, 1492, 34, 1499]"

definition not_posted :: pystr where
  "not_posted = [1496, 1512, 1501, 32, 1504, 1511, 1500, 1496]"

text \<open>
  The variable \<open>currency_str\<close> of the loop body, computed from the currency cell; the
  source assigns it and does not read it again.
\<close>

definition currency_str :: "pylib \<Rightarrow> cell list \<Rightarrow> pystr" where
  "currency_str lib row =
     (case cell_at row 3 of
        NA \<Rightarrow> asc ''ILS''
      | v \<Rightarrow>
          (let currency_val = strip (cell_str lib v) in
           if str_in [36] currency_val then asc ''USD''
           else if str_in [8364] currency_val then asc ''EUR''
           else asc ''ILS''))"

text \<open>
  \<open>final_amount\<close> of the loop body: the charge amount in shekels when it parses, the
  original amount otherwise.
\<close>

definition final_amount :: "pylib \<Rightarrow> cell list \<Rightarrow> pyfloat option" where
  "final_amount lib row =
     (let original_amount = parse_amount lib (cell_at row 2);
          ils_amount = parse_amount lib (cell_at row 4)
      in case ils_amount of Some a \<Rightarrow> Some a | None \<Rightarrow> original_amount)"

text \<open>
  The part of the loop body that parses a transaction row; \<open>None\<close> where the source
  goes on to the next row without a transaction.
\<close>

definition cc_transaction ::
  "pylib \<Rightarrow> pystr \<Rightarrow> pystr option \<Rightarrow> cell list \<Rightarrow> transaction option" where
  "cc_transaction lib file_path card_no row =
     (case parse_date lib (cell_at row 0) of
        None \<Rightarrow> None
      | Some d \<Rightarrow>
          (let business_name =
                 strip (case cell_at row 1 of NA \<Rightarrow> [] | v \<Rightarrow> cell_str lib v)
           in if business_name = [] \<or> business_name = not_posted then None
              else (case final_amount lib row of
                      None \<Rightarrow> None
                    | Some a \<Rightarrow>
                        Some \<lparr>date = d, description = business_name, amount = fneg (fabs a),
                              currency = asc ''ILS'', source = asc ''credit_card'',
                              source_file = file_path, card_number = card_no,
                              category = None\<rparr>)))"

text \<open>The loop over the rows, with the flag \<open>in_transaction_section\<close>.\<close>

fun cc_rows ::
  "pylib \<Rightarrow> pystr \<Rightarrow> pystr option \<Rightarrow> bool \<Rightarrow> cell list list \<Rightarrow> transaction list" where
  "cc_rows lib file_path card_no in_transaction_section [] = []"
| "cc_rows lib file_path card_no in_transaction_section (row # rows) =
     (let row_text = join_space (map (\<lambda>v. case v of NA \<Rightarrow> [] | _ \<Rightarrow> cell_str lib v) row) in
      if str_in header_date row_text \<and> str_in header_business row_text
      then cc_rows lib file_path card_no True rows
      else if in_transaction_section then
        (case cell_at row 0 of
           NA \<Rightarrow> cc_rows lib file_path card_no True rows
         | first_val \<Rightarrow>
             (let first_str = cell_str lib first_val in
              if str_in totals_marker first_str \<or> strip first_str = []
              then cc_rows lib file_path card_no False rows
              else (case cc_transaction lib file_path card_no row of
                      None \<Rightarrow> cc_rows lib file_path card_no True rows
                    | Some t \<Rightarrow> t # cc_rows lib file_path card_no True rows)))
      else cc_rows lib file_path card_no False rows)"

text \<open>
  \<open>parse_credit_card_statement\<close> on the sheet \<open>df\<close> read from the file. \<open>card_no\<close> is the card
  number the source finds by regular-expression search in the file name and the cells
  before the loop; it only fills the field \<open>card_number\<close>.
\<close>

definition parse_credit_card_statement ::
  "pylib \<Rightarrow> pystr \<Rightarrow> pystr option \<Rightarrow> cell list list \<Rightarrow> transaction list" where
  "parse_credit_card_statement lib file_path card_no df = cc_rows lib file_path card_no False df"

section \<open>The categorizer (categorizer.py)\<close>

text \<open>
  The catalog and the overrides are dictionaries read from JSON; they are association
  lists in insertion order, looked up with \<open>map_of\<close>. An entry of the catalog may lack
  its names; a missing keyword list is the empty list.
\<close>

record category_data =
  cat_name :: "pystr option"
  cat_name_en :: "pystr option"
  cat_keywords :: "pystr list"

record categorizer =
  categories :: "(pystr \<times> category_data) list"
  overrides :: "(pystr \<times> pystr) list"
  overrides_file :: "(pystr \<times> pystr) list option"

text \<open>\<open>d[k] = v\<close>: a present key keeps its place, a new key goes to the end.\<close>

fun dict_set :: "'k \<Rightarrow> 'v \<Rightarrow> ('k \<times> 'v) list \<Rightarrow> ('k \<times> 'v) list" where
  "dict_set k v [] = [(k, v)]"
| "dict_set k v ((k', v') # d) = (if k' = k then (k, v) # d else (k', v') # dict_set k v d)"

definition save_overrides :: "categorizer \<Rightarrow> categorizer" where
  "save_overrides c = c\<lparr>overrides_file := Some (overrides c)\<rparr>"

definition add_override :: "categorizer \<Rightarrow> pystr \<Rightarrow> pystr \<Rightarrow> bool \<times> categorizer" where
  "add_override c descr category_key =
     (if map_of (categories c) category_key = None \<and> category_key \<noteq> other_key
      then (False, c)
      else (True, save_overrides (c\<lparr>overrides := dict_set descr category_key (overrides c)\<rparr>)))"

definition list_overrides :: "categorizer \<Rightarrow> (pystr \<times> pystr) list" where
  "list_overrides c = overrides c"

text \<open>The tuple \<open>categorize\<close> returns for a catalog entry.\<close>

definition cat_result :: "pystr \<Rightarrow> category_data \<Rightarrow> pystr \<times> pystr \<times> pystr" where
  "cat_result cat_key cat =
     (cat_key,
      (case cat_name cat of None \<Rightarrow> cat_key | Some n \<Rightarrow> n),
      (case cat_name_en cat of None \<Rightarrow> [] | Some n \<Rightarrow> n))"

text \<open>The loop over the overrides (partial match) and the loop over the catalog.\<close>

fun partial_match ::
  "(pystr \<Rightarrow> pystr) \<Rightarrow> (pystr \<times> category_data) list \<Rightarrow> pystr \<Rightarrow> (pystr \<times> pystr) list
     \<Rightarrow> (pystr \<times> pystr \<times> pystr) option" where
  "partial_match lower cats description_lower [] = None"
| "partial_match lower cats description_lower ((override_pattern, cat_key) # rest) =
     (if str_in (lower override_pattern) description_lower \<or>
         str_in description_lower (lower override_pattern)
      then (case map_of cats cat_key of
              Some cat \<Rightarrow> Some (cat_result cat_key cat)
            | None \<Rightarrow> partial_match lower cats description_lower rest)
      else partial_match lower cats description_lower rest)"

fun keyword_match ::
  "(pystr \<Rightarrow> pystr) \<Rightarrow> pystr \<Rightarrow> (pystr \<times> category_data) list
     \<Rightarrow> (pystr \<times> pystr \<times> pystr) option" where
  "keyword_match lower description_lower [] = None"
| "keyword_match lower description_lower ((cat_key, cat_data) # rest) =
     (if list_ex (\<lambda>keyword. str_in (lower keyword) description_lower) (cat_keywords cat_data)
      then Some (cat_result cat_key cat_data)
      else keyword_match lower description_lower rest)"

definition categorize :: "(pystr \<Rightarrow> pystr) \<Rightarrow> categorizer \<Rightarrow> pystr \<Rightarrow> pystr \<times> pystr \<times> pystr" where
  "categorize lower c descr =
     (let description_lower = lower descr;
          description_clean = strip descr;
          exact = (case map_of (overrides c) description_clean of
                     None \<Rightarrow> None
                   | Some cat_key \<Rightarrow>
                       (case map_of (categories c) cat_key of
                          None \<Rightarrow> None
                        | Some cat \<Rightarrow> Some (cat_result cat_key cat)))
      in case exact of
           Some r \<Rightarrow> r
         | None \<Rightarrow>
             (case partial_match lower (categories c) description_lower (overrides c) of
                Some r \<Rightarrow> r
              | None \<Rightarrow>
                  (case keyword_match lower description_lower (categories c) of
                     Some r \<Rightarrow> r
                   | None \<Rightarrow>
                       (case map_of (categories c) other_key of
                          Some other_cat \<Rightarrow>
                            (other_key,
                             (case cat_name other_cat of None \<Rightarrow> other_key | Some n \<Rightarrow> n),
                             (case cat_name_en other_cat of None \<Rightarrow> asc ''Other'' | Some n \<Rightarrow> n))
                        | None \<Rightarrow> (other_key, other_key, asc ''Other'')))))"

section \<open>Notions used in the statements\<close>

text \<open>The transactions a breakdown lists, over all its categories.\<close>

fun breakdown_transactions :: "breakdown \<Rightarrow> transaction list" where
  "breakdown_transactions [] = []"
| "breakdown_transactions ((k, e) # d) = entry_transactions e @ breakdown_transactions d"

text \<open>
  The test of the first \<open>if\<close> in the loop of \<open>get_monthly_summary\<close>, on the selected
  transactions \<open>txs\<close>.
\<close>

definition excluded_by ::
  "(pystr \<Rightarrow> pystr) \<Rightarrow> bool \<Rightarrow> transaction list \<Rightarrow> transaction \<Rightarrow> bool" where
  "excluded_by lower flag txs t \<longleftrightarrow>
     flag \<and> list_ex (\<lambda>t. source t = asc ''bank'') txs \<and>
     list_ex (\<lambda>t. source t = asc ''credit_card'') txs \<and> is_credit_card_transfer lower t"

text \<open>The ranges of the fields of a \<open>datetime\<close> object.\<close>

definition valid_datetime :: "datetime \<Rightarrow> bool" where
  "valid_datetime d \<longleftrightarrow>
     1 \<le> dt_year d \<and> dt_year d \<le> 9999 \<and> 1 \<le> dt_month d \<and> dt_month d \<le> 12 \<and>
     1 \<le> dt_day d \<and> dt_day d \<le> days_in_month (dt_year d) (dt_month d) \<and>
     0 \<le> dt_hour d \<and> dt_hour d < 24 \<and> 0 \<le> dt_minute d \<and> dt_minute d < 60 \<and>
     0 \<le> dt_second d \<and> dt_second d < 60 \<and>
     0 \<le> dt_microsecond d \<and> dt_microsecond d < 1000000"

definition in_march_2026 :: "datetime \<Rightarrow> bool" where
  "in_march_2026 d \<longleftrightarrow> valid_datetime d \<and> dt_year d = 2026 \<and> dt_month d = 3"

section \<open>Concrete inputs\<close>

text \<open>
  The stores, transactions, sheets and catalogs at which the theorems are evaluated.
  \<open>midnight\<close> is the \<open>datetime\<close> the parsers give a date without a time.
\<close>

definition midnight :: "int \<Rightarrow> int \<Rightarrow> int \<Rightarrow> datetime" where
  "midnight y m d = \<lparr>dt_year = y, dt_month = m, dt_day = d, dt_hour = 0, dt_minute = 0,
     dt_second = 0, dt_microsecond = 0\<rparr>"

definition bank_tx :: "datetime \<Rightarrow> pystr \<Rightarrow> pyfloat \<Rightarrow> transaction" where
  "bank_tx d descr a = \<lparr>date = d, description = descr, amount = a, currency = asc ''ILS'',
     source = asc ''bank'', source_file = asc ''bank_march.xlsx'', card_number = None,
     category = None\<rparr>"

definition card_tx :: "datetime \<Rightarrow> pystr \<Rightarrow> pyfloat \<Rightarrow> transaction" where
  "card_tx d descr a = \<lparr>date = d, description = descr, amount = a, currency = asc ''ILS'',
     source = asc ''credit_card'', source_file = asc ''card_4580.xlsx'',
     card_number = Some (asc ''4580''), category = None\<rparr>"

definition store_of :: "transaction list \<Rightarrow> storage" where
  "store_of ts = \<lparr>transactions = ts, processed_files = [], transactions_file = Some ts,
     processed_files_file = Some []\<rparr>"


text \<open>
  The rounding that is exact: what IEEE arithmetic does where the exact result is a
  float, as it is in the sums and differences evaluated below.
\<close>

definition exact :: "real \<Rightarrow> pyfloat" where
  "exact r = Fin r"






text \<open>A month with both sources and one settlement of a card bill.\<close>

definition salary_tx :: transaction where
  "salary_tx = bank_tx (midnight 2026 3 1) (asc ''SALARY'') (Fin 9000)"

definition cafe_tx :: transaction where
  "cafe_tx = card_tx (midnight 2026 3 5) (asc ''CAFE'') (Fin (- 30))"

definition visa_cal_tx :: transaction where
  "visa_cal_tx = bank_tx (midnight 2026 3 10) (asc ''Visa Cal 4580'') (Fin (- 1200))"

definition both_sources_store :: storage where
  "both_sources_store = store_of [visa_cal_tx, salary_tx, cafe_tx]"

definition bank_only_store :: storage where
  "bank_only_store = store_of [visa_cal_tx, salary_tx]"

text \<open>The example of the specification, and the same with an issuer name of the list.\<close>

definition isracard_tx :: transaction where
  "isracard_tx = bank_tx (midnight 2026 3 10) (asc ''ISRACARD SETTLEMENT'') (Fin (- 500))"

definition mastercard_tx :: transaction where
  "mastercard_tx = bank_tx (midnight 2026 3 10) (asc ''MASTERCARD SETTLEMENT'') (Fin (- 500))"

definition supermarket_tx :: transaction where
  "supermarket_tx = card_tx (midnight 2026 3 5) (asc ''SUPERMARKET'') (Fin (- 500))"

definition isracard_store :: storage where
  "isracard_store = store_of [isracard_tx, supermarket_tx]"

definition mastercard_store :: storage where
  "mastercard_store = store_of [mastercard_tx, supermarket_tx]"

text \<open>
  A transaction dated the first of April, one of amount zero, and one of amount \<open>nan\<close>,
  as the parser makes it of the row \<open>nan_row\<close> below.
\<close>

definition april_first_tx :: transaction where
  "april_first_tx = bank_tx (midnight 2026 4 1) (asc ''GROCERY'') (Fin (- 80))"

definition april_store :: storage where
  "april_store = store_of [april_first_tx]"





text \<open>The summaries of March 2026 of three of these stores.\<close>

definition both_sources_summary :: monthly_summary where
  "both_sources_summary =
     \<lparr>sum_year = 2026, sum_month = 3, total_expenses = Fin 30, total_income = Fin 9000,
      balance = Fin 8970,
      expense_by_category =
        [(other_key, \<lparr>entry_total = Fin 30, entry_transactions = [cafe_tx]\<rparr>)],
      income_by_category =
        [(other_key, \<lparr>entry_total = Fin 9000, entry_transactions = [salary_tx]\<rparr>)],
      transaction_count = 3, excluded_cc_transfers = [visa_cal_tx], total_excluded = Fin 1200\<rparr>"

definition bank_only_summary :: monthly_summary where
  "bank_only_summary =
     \<lparr>sum_year = 2026, sum_month = 3, total_expenses = Fin 1200, total_income = Fin 9000,
      balance = Fin 7800,
      expense_by_category =
        [(other_key, \<lparr>entry_total = Fin 1200, entry_transactions = [visa_cal_tx]\<rparr>)],
      income_by_category =
        [(other_key, \<lparr>entry_total = Fin 9000, entry_transactions = [salary_tx]\<rparr>)],
      transaction_count = 2, excluded_cc_transfers = [], total_excluded = Fin 0\<rparr>"


text \<open>
  A sheet of a card statement: the header of a section, a purchase in dollars with its
  charge in shekels, and a row without a charge amount. \<open>demo_lib\<close> gives the library
  functions on the cells of this sheet, where they are what Python returns.
\<close>

definition demo_lib :: pylib where
  "demo_lib =
     \<lparr>str_num = (\<lambda>x. if x = 5 then asc ''5.0'' else if x = 10 then asc ''10.0''
                    else if x = 20 then asc ''20.0'' else if x = 36.5 then asc ''36.5''
                    else []),
      str_date = (\<lambda>d. []),
      strptime = (\<lambda>s fmt.
        if fmt = asc ''%d.%m.%y'' \<and> s = asc ''05.03.26'' then Some (midnight 2026 3 5)
        else if fmt = asc ''%d.%m.%y'' \<and> s = asc ''06.03.26'' then Some (midnight 2026 3 6)
        else if fmt = asc ''%d.%m.%y'' \<and> s = asc ''07.03.26'' then Some (midnight 2026 3 7)
        else None),
      float_of_str = (\<lambda>s. if s = asc ''nan'' then Some NaN else None)\<rparr>"

definition header_row :: "cell list" where
  "header_row = [Str header_date, Str header_business, Str (asc ''amount''),
     Str (asc ''currency''), Str (asc ''charge'')]"

definition usd_row :: "cell list" where
  "usd_row = [Str (asc ''05.03.26''), Str (asc ''AMAZON''), Num 10, Str (asc ''$''), Num 36.5]"

definition uncharged_row :: "cell list" where
  "uncharged_row = [Str (asc ''06.03.26''), Str (asc ''SHOE STORE''), Num 20, Str [8362], NA]"

definition card_sheet :: "cell list list" where
  "card_sheet = [header_row, usd_row, uncharged_row]"

text \<open>A row whose charge cell holds the shekel sign and the text \<open>nan\<close>.\<close>

definition nan_row :: "cell list" where
  "nan_row = [Str (asc ''07.03.26''), Str (asc ''KIOSK''), Num 5, Str [8362],
     Str (8362 # asc ''nan'')]"

definition amazon_tx :: transaction where
  "amazon_tx = card_tx (midnight 2026 3 5) (asc ''AMAZON'') (Fin (- 36.5))"


text \<open>
  Catalogs and overrides: an override to a key that is not in the catalog, a catalog
  without the key \<open>other\<close>, and a catalog with an override to one of its keys.
\<close>

definition food_data :: category_data where
  "food_data = \<lparr>cat_name = Some [1502, 1494, 1493, 1503], cat_name_en = Some (asc ''Food''),
     cat_keywords = [asc ''super'']\<rparr>"

definition home_data :: category_data where
  "home_data = \<lparr>cat_name = None, cat_name_en = Some (asc ''Home''), cat_keywords = []\<rparr>"

definition other_data :: category_data where
  "other_data = \<lparr>cat_name = Some other_key, cat_name_en = Some (asc ''Other''),
     cat_keywords = []\<rparr>"

definition stale_categorizer :: categorizer where
  "stale_categorizer =
     \<lparr>categories = [(asc ''food'', food_data), (other_key, other_data)],
      overrides = [(asc ''supermarket'', asc ''groceries'')],
      overrides_file = Some [(asc ''supermarket'', asc ''groceries'')]\<rparr>"

definition no_other_categorizer :: categorizer where
  "no_other_categorizer =
     \<lparr>categories = [(asc ''food'', food_data)], overrides = [], overrides_file = None\<rparr>"

definition demo_categorizer :: categorizer where
  "demo_categorizer =
     \<lparr>categories = [(asc ''food'', food_data), (asc ''home'', home_data),
        (other_key, other_data)],
      overrides = [(asc ''supermarket'', asc ''home'')],
      overrides_file = Some [(asc ''supermarket'', asc ''home'')]\<rparr>"

section \<open>Adding to the store\<close>











lemma transactions_save [simp]: "transactions (save s) = transactions s"
  by (simp add: save_def)

lemma transactions_mark [simp]: "transactions (mark_file_processed s f) = transactions s"
  by (simp add: mark_file_processed_def Let_def)

lemma mark_twice [simp]: "mark_file_processed (mark_file_processed s f) f = mark_file_processed s f"
  by (simp add: mark_file_processed_def Let_def save_def)



lemma storage_same [simp]: "s\<lparr>transactions := transactions s\<rparr> = s"
  by (cases s) simp











section \<open>The monthly summary\<close>

lemma split_transactions_filter:
  "split_transactions excl ts =
     (filter (\<lambda>t. \<not> excl t \<and> fgt (amount t) (Fin 0)) ts,
      filter (\<lambda>t. \<not> excl t \<and> \<not> fgt (amount t) (Fin 0)) ts,
      filter excl ts)"
  by (induction ts) (simp_all add: Let_def)

lemma set_add_to_category:
  "set (breakdown_transactions (add_to_category rnd cat v t d)) =
     insert t (set (breakdown_transactions d))"
  by (induction d) (auto split: if_splits)

lemma set_by_category:
  "set (breakdown_transactions (by_category rnd f d ts)) =
     set (breakdown_transactions d) \<union> set ts"
  by (induction ts arbitrary: d) (simp_all add: set_add_to_category)

lemma summarize_eq:
  "summarize rnd lower year month flag txs =
     \<lparr>sum_year = year, sum_month = month,
      total_expenses =
        py_sum rnd (map (\<lambda>t. fabs (amount t))
          (filter (\<lambda>t. \<not> excluded_by lower flag txs t \<and> \<not> fgt (amount t) (Fin 0)) txs)),
      total_income =
        py_sum rnd (map amount (filter (\<lambda>t. \<not> excluded_by lower flag txs t \<and> fgt (amount t) (Fin 0)) txs)),
      balance =
        fsub rnd
          (py_sum rnd (map amount
            (filter (\<lambda>t. \<not> excluded_by lower flag txs t \<and> fgt (amount t) (Fin 0)) txs)))
          (py_sum rnd (map (\<lambda>t. fabs (amount t))
            (filter (\<lambda>t. \<not> excluded_by lower flag txs t \<and> \<not> fgt (amount t) (Fin 0)) txs))),
      expense_by_category =
        by_category rnd (\<lambda>t. fabs (amount t)) []
          (filter (\<lambda>t. \<not> excluded_by lower flag txs t \<and> \<not> fgt (amount t) (Fin 0)) txs),
      income_by_category =
        by_category rnd amount [] (filter (\<lambda>t. \<not> excluded_by lower flag txs t \<and> fgt (amount t) (Fin 0)) txs),
      transaction_count = length txs,
      excluded_cc_transfers = filter (excluded_by lower flag txs) txs,
      total_excluded = py_sum rnd (map (\<lambda>t. fabs (amount t)) (filter (excluded_by lower flag txs) txs))\<rparr>"
  unfolding summarize_def split_transactions_filter Let_def prod.case excluded_by_def ..

lemma not_in_excluded:
  "t \<in> set txs \<Longrightarrow>
     t \<notin> set (excluded_cc_transfers (summarize rnd lower year month flag txs)) \<longleftrightarrow>
       \<not> excluded_by lower flag txs t"
  by (simp add: summarize_eq)

lemma filter_not_excluded:
  "filter (\<lambda>t. t \<notin> set (excluded_cc_transfers (summarize rnd lower year month flag txs)) \<and> P t) txs =
     filter (\<lambda>t. \<not> excluded_by lower flag txs t \<and> P t) txs"
  by (rule filter_cong) (simp_all add: summarize_eq)

lemma summary_Inr:
  "get_monthly_summary rnd lower s year month flag = Inr r \<Longrightarrow> month_transactions s year month = Inr txs \<Longrightarrow>
     r = summarize rnd lower year month flag txs"
  by (simp add: get_monthly_summary_def)

lemmas store_eval =
  get_monthly_summary_def month_transactions_def month_range_def mk_datetime_def
  days_in_month_def get_transactions_def passes_filters_def dt_key_def summarize_def
  is_credit_card_transfer_def cc_keywords_def asc_def ascii_lower_def other_key_def
  category_or_other_def store_of_def bank_tx_def card_tx_def midnight_def py_sum_def
  fsub_def fgt_def exact_def Let_def

lemma bank_fragment_is_transfer:
  assumes "source t = asc ''bank''" and "k \<in> set cc_keywords"
    and "str_in (lower k) (lower (description t))"
  shows "is_credit_card_transfer lower t"
  using assms by (auto simp: is_credit_card_transfer_def Let_def list_ex_iff)

text \<open>
  Claim C1. Let \<open>get_monthly_summary\<close> return the summary \<open>r\<close> with the exclusion flag at
  its default, and let \<open>txs\<close> be the transactions it selected. The income total is the sum
  of the amounts above 0, and the expense total the sum of the absolute other amounts,
  over the selected transactions outside the excluded-transfer list. When the selection
  holds a bank transaction and a credit-card transaction, every selected bank transaction
  whose description contains one of the issuer names, compared in lower case, is in the
  excluded-transfer list and in neither breakdown. When one of the two sources is missing,
  the excluded-transfer list is empty and its total is 0.
\<close>

theorem cc_transfers_excluded:
  assumes "get_monthly_summary rnd lower s year month True = Inr r"
    and "month_transactions s year month = Inr txs"
  shows "total_income r =
      py_sum rnd (map amount
        (filter (\<lambda>t. t \<notin> set (excluded_cc_transfers r) \<and> fgt (amount t) (Fin 0)) txs)) \<and>
    total_expenses r =
      py_sum rnd (map (\<lambda>t. fabs (amount t))
        (filter (\<lambda>t. t \<notin> set (excluded_cc_transfers r) \<and> \<not> fgt (amount t) (Fin 0)) txs)) \<and>
    ((\<exists>t\<in>set txs. source t = asc ''bank'') \<and> (\<exists>t\<in>set txs. source t = asc ''credit_card'') \<longrightarrow>
       (\<forall>t\<in>set txs.
          source t = asc ''bank'' \<and>
          (\<exists>k\<in>set cc_keywords. str_in (lower k) (lower (description t))) \<longrightarrow>
            t \<in> set (excluded_cc_transfers r) \<and>
            t \<notin> set (breakdown_transactions (income_by_category r)) \<and>
            t \<notin> set (breakdown_transactions (expense_by_category r)))) \<and>
    (\<not> ((\<exists>t\<in>set txs. source t = asc ''bank'') \<and>
         (\<exists>t\<in>set txs. source t = asc ''credit_card'')) \<longrightarrow>
       excluded_cc_transfers r = [] \<and> total_excluded r = Fin 0)"
proof -
  have r: "r = summarize rnd lower year month True txs"
    using assms by (rule summary_Inr)
  have income: "total_income r =
      py_sum rnd (map amount
        (filter (\<lambda>t. t \<notin> set (excluded_cc_transfers r) \<and> fgt (amount t) (Fin 0)) txs))"
    unfolding r filter_not_excluded by (simp add: summarize_eq)
  have expenses: "total_expenses r =
      py_sum rnd (map (\<lambda>t. fabs (amount t))
        (filter (\<lambda>t. t \<notin> set (excluded_cc_transfers r) \<and> \<not> fgt (amount t) (Fin 0)) txs))"
    unfolding r filter_not_excluded by (simp add: summarize_eq)
  have both: "t \<in> set (excluded_cc_transfers r) \<and>
      t \<notin> set (breakdown_transactions (income_by_category r)) \<and>
      t \<notin> set (breakdown_transactions (expense_by_category r))"
    if "\<exists>t\<in>set txs. source t = asc ''bank''" and "\<exists>t\<in>set txs. source t = asc ''credit_card''"
      and "t \<in> set txs" and "source t = asc ''bank''"
      and "\<exists>k\<in>set cc_keywords. str_in (lower k) (lower (description t))" for t
  proof -
    from that(4,5) have "is_credit_card_transfer lower t"
      by (blast intro: bank_fragment_is_transfer)
    with that(1,2) have "excluded_by lower True txs t"
      by (simp add: excluded_by_def list_ex_iff)
    with that(3) show ?thesis
      by (simp add: r summarize_eq set_by_category)
  qed
  have one: "excluded_cc_transfers r = [] \<and> total_excluded r = Fin 0"
    if "\<not> ((\<exists>t\<in>set txs. source t = asc ''bank'') \<and>
         (\<exists>t\<in>set txs. source t = asc ''credit_card''))"
  proof -
    from that have "\<not> excluded_by lower True txs t" for t
      by (auto simp: excluded_by_def list_ex_iff)
    then show ?thesis by (simp add: r summarize_eq py_sum_def)
  qed
  from income expenses both one show ?thesis by blast
qed

theorem cc_transfers_excluded_witness:
  "get_monthly_summary exact ascii_lower both_sources_store 2026 3 True = Inr both_sources_summary \<and>
   month_transactions both_sources_store 2026 3 = Inr [salary_tx, cafe_tx, visa_cal_tx] \<and>
   source visa_cal_tx = asc ''bank'' \<and> source cafe_tx = asc ''credit_card'' \<and>
   str_in (ascii_lower (asc ''visa cal'')) (ascii_lower (description visa_cal_tx)) \<and>
   visa_cal_tx \<in> set (excluded_cc_transfers both_sources_summary) \<and>
   total_income both_sources_summary = Fin 9000 \<and>
   total_expenses both_sources_summary = Fin 30 \<and>
   get_monthly_summary exact ascii_lower bank_only_store 2026 3 True = Inr bank_only_summary \<and>
   month_transactions bank_only_store 2026 3 = Inr [salary_tx, visa_cal_tx] \<and>
   source salary_tx = asc ''bank'' \<and>
   excluded_cc_transfers bank_only_summary = [] \<and>
   total_excluded bank_only_summary = Fin 0 \<and> total_expenses bank_only_summary = Fin 1200"
proof -
  have h1: "get_monthly_summary exact ascii_lower both_sources_store 2026 3 True =
      Inr both_sources_summary"
    by (simp add: store_eval both_sources_store_def both_sources_summary_def salary_tx_def
        cafe_tx_def visa_cal_tx_def)
  have h2: "month_transactions both_sources_store 2026 3 = Inr [salary_tx, cafe_tx, visa_cal_tx]"
    by (simp add: store_eval both_sources_store_def salary_tx_def cafe_tx_def visa_cal_tx_def)
  have g1: "get_monthly_summary exact ascii_lower bank_only_store 2026 3 True = Inr bank_only_summary"
    by (simp add: store_eval bank_only_store_def bank_only_summary_def salary_tx_def
        visa_cal_tx_def)
  have g2: "month_transactions bank_only_store 2026 3 = Inr [salary_tx, visa_cal_tx]"
    by (simp add: store_eval bank_only_store_def salary_tx_def visa_cal_tx_def)
  from cc_transfers_excluded [OF h1 h2] cc_transfers_excluded [OF g1 g2] h1 h2 g1 g2
  show ?thesis
    by (simp add: both_sources_summary_def bank_only_summary_def salary_tx_def cafe_tx_def
        visa_cal_tx_def bank_tx_def card_tx_def asc_def ascii_lower_def)
qed

lemma month_range_march:
  "month_range 2026 3 =
     Inr (midnight 2026 3 1, midnight 2026 4 1)"
  by (simp add: month_range_def mk_datetime_def days_in_month_def midnight_def)

lemma march_passes:
  assumes "in_march_2026 (date t)"
  shows "passes_filters (Some (midnight 2026 3 1)) (Some (midnight 2026 4 1)) None None t"
  using assms
  by (auto simp: passes_filters_def in_march_2026_def valid_datetime_def dt_key_def midnight_def)

lemma march_pair_selected:
  assumes "transactions s = [x, y]" and "in_march_2026 (date x)" and "in_march_2026 (date y)"
  shows "month_transactions s 2026 3 = Inr [x, y] \<or> month_transactions s 2026 3 = Inr [y, x]"
  using assms
  by (simp add: month_transactions_def month_range_march get_transactions_def march_passes)

lemma isracard_is_no_transfer:
  "description b = asc ''ISRACARD SETTLEMENT'' \<Longrightarrow> \<not> is_credit_card_transfer ascii_lower b"
  by (simp add: is_credit_card_transfer_def cc_keywords_def asc_def ascii_lower_def)

lemma mastercard_is_transfer:
  "source b = asc ''bank'' \<Longrightarrow> description b = asc ''MASTERCARD SETTLEMENT'' \<Longrightarrow>
     is_credit_card_transfer ascii_lower b"
  by (simp add: is_credit_card_transfer_def cc_keywords_def asc_def ascii_lower_def)

lemma credit_card_is_no_transfer:
  "source c = asc ''credit_card'' \<Longrightarrow> \<not> is_credit_card_transfer lower c"
  by (simp add: is_credit_card_transfer_def asc_def)

lemma pair_totals:
  assumes "txs = [b, c] \<or> txs = [c, b]"
    and "source b = asc ''bank''" and "amount b = Fin (- 500)"
    and "source c = asc ''credit_card''" and "amount c = Fin (- 500)"
    and "rnd 500 = Fin 500" and "rnd 1000 = Fin 1000"
  shows "total_excluded (summarize rnd lower year month True txs) =
      (if is_credit_card_transfer lower b then Fin 500 else Fin 0) \<and>
    total_expenses (summarize rnd lower year month True txs) =
      (if is_credit_card_transfer lower b then Fin 500 else Fin 1000)"
proof -
  note rnd = assms(6,7)
  have c: "\<not> excluded_by lower True txs c"
    using assms(4) by (simp add: excluded_by_def credit_card_is_no_transfer)
  have b: "excluded_by lower True txs b \<longleftrightarrow> is_credit_card_transfer lower b"
    using assms(1,2,4) by (auto simp: excluded_by_def)
  from assms(1) show ?thesis
  proof
    assume "txs = [b, c]"
    with b c assms(3,5) show ?thesis by (simp add: summarize_eq py_sum_def fgt_def rnd)
  next
    assume "txs = [c, b]"
    with b c assms(3,5) show ?thesis by (simp add: summarize_eq py_sum_def fgt_def rnd)
  qed
qed

text \<open>
  Claim C2, as amended. A store holds one bank transaction of amount -500 and one
  credit-card transaction \<open>SUPERMARKET\<close> of amount -500, both dated in March 2026, and the
  rounding leaves 500 and 1000 as they are, which are floats. If the
  bank description is \<open>ISRACARD SETTLEMENT\<close>, the summary of March 2026 has
  \<open>total_excluded = 0\<close> and \<open>total_expenses = 1000\<close>: the name in Latin letters is not in
  the list of issuer names. If it is \<open>MASTERCARD SETTLEMENT\<close>, a name of the list, the
  summary has \<open>total_excluded = 500\<close> and \<open>total_expenses = 500\<close>.
\<close>

theorem issuer_settlement_example:
  assumes "transactions s = [b, c] \<or> transactions s = [c, b]"
    and "source b = asc ''bank''" and "amount b = Fin (- 500)"
    and "source c = asc ''credit_card''" and "description c = asc ''SUPERMARKET''"
    and "amount c = Fin (- 500)"
    and "in_march_2026 (date b)" and "in_march_2026 (date c)"
    and "rnd 500 = Fin 500" and "rnd 1000 = Fin 1000"
  shows "\<exists>r. get_monthly_summary rnd ascii_lower s 2026 3 True = Inr r \<and>
    (description b = asc ''ISRACARD SETTLEMENT'' \<longrightarrow>
       total_excluded r = Fin 0 \<and> total_expenses r = Fin 1000) \<and>
    (description b = asc ''MASTERCARD SETTLEMENT'' \<longrightarrow>
       total_excluded r = Fin 500 \<and> total_expenses r = Fin 500)"
proof -
  from assms(1,7,8) obtain txs
    where sel: "month_transactions s 2026 3 = Inr txs" and txs: "txs = [b, c] \<or> txs = [c, b]"
    using march_pair_selected [of s b c] march_pair_selected [of s c b] by blast
  let ?r = "summarize rnd ascii_lower 2026 3 True txs"
  have "get_monthly_summary rnd ascii_lower s 2026 3 True = Inr ?r"
    by (simp add: get_monthly_summary_def sel)
  moreover note pair_totals [OF txs assms(2,3,4,6,9,10), of ascii_lower 2026 3]
  ultimately show ?thesis
    using isracard_is_no_transfer [of b] mastercard_is_transfer [OF assms(2)] by auto
qed

text \<open>
  Claim C2 as stated fails on the example of the specification: both lines count as
  expenses and nothing is excluded.
\<close>

theorem isracard_settlement_counterexample:
  "get_monthly_summary exact ascii_lower isracard_store 2026 3 True =
     Inr \<lparr>sum_year = 2026, sum_month = 3, total_expenses = Fin 1000, total_income = Fin 0,
       balance = Fin (- 1000),
       expense_by_category =
         [(other_key,
           \<lparr>entry_total = Fin 1000, entry_transactions = [supermarket_tx, isracard_tx]\<rparr>)],
       income_by_category = [],
       transaction_count = 2, excluded_cc_transfers = [], total_excluded = Fin 0\<rparr>"
  by (simp add: store_eval isracard_store_def isracard_tx_def supermarket_tx_def)

theorem issuer_settlement_example_witness:
  "transactions isracard_store = [isracard_tx, supermarket_tx] \<and>
   transactions mastercard_store = [mastercard_tx, supermarket_tx] \<and>
   source isracard_tx = asc ''bank'' \<and> amount isracard_tx = Fin (- 500) \<and>
   source mastercard_tx = asc ''bank'' \<and> amount mastercard_tx = Fin (- 500) \<and>
   source supermarket_tx = asc ''credit_card'' \<and>
   description supermarket_tx = asc ''SUPERMARKET'' \<and>
   amount supermarket_tx = Fin (- 500) \<and>
   exact 500 = Fin 500 \<and> exact 1000 = Fin 1000 \<and>
   in_march_2026 (date isracard_tx) \<and> in_march_2026 (date mastercard_tx) \<and>
   in_march_2026 (date supermarket_tx) \<and>
   description isracard_tx = asc ''ISRACARD SETTLEMENT'' \<and>
   description mastercard_tx = asc ''MASTERCARD SETTLEMENT'' \<and>
   (\<exists>r. get_monthly_summary exact ascii_lower isracard_store 2026 3 True = Inr r \<and>
        total_excluded r = Fin 0 \<and> total_expenses r = Fin 1000) \<and>
   (\<exists>r. get_monthly_summary exact ascii_lower mastercard_store 2026 3 True = Inr r \<and>
        total_excluded r = Fin 500 \<and> total_expenses r = Fin 500)"
proof -
  have s1: "transactions isracard_store = [isracard_tx, supermarket_tx]"
    and s2: "transactions mastercard_store = [mastercard_tx, supermarket_tx]"
    by (simp_all add: isracard_store_def mastercard_store_def store_of_def)
  have b1: "source isracard_tx = asc ''bank''" and a1: "amount isracard_tx = Fin (- 500)"
    and d1: "description isracard_tx = asc ''ISRACARD SETTLEMENT''"
    by (simp_all add: isracard_tx_def bank_tx_def)
  have b2: "source mastercard_tx = asc ''bank''" and a2: "amount mastercard_tx = Fin (- 500)"
    and d2: "description mastercard_tx = asc ''MASTERCARD SETTLEMENT''"
    by (simp_all add: mastercard_tx_def bank_tx_def)
  have c: "source supermarket_tx = asc ''credit_card''"
    and cd: "description supermarket_tx = asc ''SUPERMARKET''"
    and ca: "amount supermarket_tx = Fin (- 500)"
    by (simp_all add: supermarket_tx_def card_tx_def)
  have m1: "in_march_2026 (date isracard_tx)" and m2: "in_march_2026 (date mastercard_tx)"
    and m3: "in_march_2026 (date supermarket_tx)"
    by (simp_all add: in_march_2026_def valid_datetime_def days_in_month_def isracard_tx_def
        mastercard_tx_def supermarket_tx_def bank_tx_def card_tx_def midnight_def)
  have r1: "exact 500 = Fin 500" and r2: "exact 1000 = Fin 1000"
    by (simp_all add: exact_def)
  from issuer_settlement_example [OF disjI1 [OF s1] b1 a1 c cd ca m1 m3 r1 r2]
    issuer_settlement_example [OF disjI1 [OF s2] b2 a2 c cd ca m2 m3 r1 r2]
  show ?thesis
    using s1 s2 b1 a1 d1 b2 a2 d2 c cd ca m1 m2 m3 r1 r2 by blast
qed

text \<open>
  What the selection of \<open>get_monthly_summary\<close> is on the code: both bounds are inclusive,
  from the first of the month to the first of the next month, December rolling over to
  January of the next year.
\<close>

lemma month_range_keys:
  assumes "month_range year month = Inr (a, b)"
  shows "dt_key a = (year, month, 1, 0, 0, 0, 0) \<and>
    dt_key b = (if month = 12 then (year + 1, 1, 1, 0, 0, 0, 0)
                else (year, month + 1, 1, 0, 0, 0, 0))"
proof (cases "month = 12")
  case True
  with assms show ?thesis
    by (auto simp: month_range_def mk_datetime_def dt_key_def split: if_splits)
next
  case False
  with assms show ?thesis
    by (auto simp: month_range_def mk_datetime_def dt_key_def split: if_splits)
qed

lemma month_transactions_selects:
  assumes "month_transactions s year month = Inr txs"
  shows "set txs =
    {t \<in> set (transactions s).
       (year, month, 1, 0, 0, 0, 0) \<le> dt_key (date t) \<and>
       dt_key (date t) \<le> (if month = 12 then (year + 1, 1, 1, 0, 0, 0, 0)
                            else (year, month + 1, 1, 0, 0, 0, 0))}"
proof -
  from assms obtain a b where range: "month_range year month = Inr (a, b)"
    and txs: "txs = get_transactions s (Some a) (Some b) None None"
    by (auto simp: month_transactions_def split: sum.splits)
  note keys = month_range_keys [OF range]
  have "passes_filters (Some a) (Some b) None None t \<longleftrightarrow>
      dt_key a \<le> dt_key (date t) \<and> dt_key (date t) \<le> dt_key b" for t
    by (simp add: passes_filters_def not_less)
  with keys show ?thesis
    unfolding txs by (simp add: get_transactions_def)
qed

text \<open>
  Claim C3 fails on the code at a transaction dated the first of April at midnight: the
  summary of March selects it, through the upper bound \<open>t.date > end_date\<close> of
  \<open>get_transactions\<close>, and the summary of April selects it again.
\<close>

theorem first_of_next_month_selected:
  "month_transactions april_store 2026 3 = Inr [april_first_tx] \<and>
   month_transactions april_store 2026 4 = Inr [april_first_tx]"
  by (simp add: store_eval april_store_def april_first_tx_def)




section \<open>The credit-card parser: currency and sign\<close>

lemma cc_rows_Cons:
  "(\<exists>b'. cc_rows lib file_path card_no b (row # rows) = cc_rows lib file_path card_no b' rows) \<or>
   (\<exists>t'. cc_transaction lib file_path card_no row = Some t' \<and>
      cc_rows lib file_path card_no b (row # rows) = t' # cc_rows lib file_path card_no True rows)"
proof (cases "cc_transaction lib file_path card_no row")
  case None
  then show ?thesis
    by (simp add: Let_def split: cell.splits) blast
next
  case (Some t')
  then show ?thesis
    by (simp add: Let_def split: cell.splits) blast
qed

lemma cc_rows_from_row:
  "t \<in> set (cc_rows lib file_path card_no b rows) \<Longrightarrow>
     \<exists>row\<in>set rows. cc_transaction lib file_path card_no row = Some t"
proof (induction rows arbitrary: b)
  case Nil
  then show ?case by simp
next
  case (Cons row rows)
  from cc_rows_Cons [of lib file_path card_no b row rows] show ?case
  proof (elim disjE exE conjE)
    fix b'
    assume "cc_rows lib file_path card_no b (row # rows) = cc_rows lib file_path card_no b' rows"
    with Cons.prems have "t \<in> set (cc_rows lib file_path card_no b' rows)" by simp
    from Cons.IH [OF this] show ?thesis by auto
  next
    fix t'
    assume t': "cc_transaction lib file_path card_no row = Some t'"
      and "cc_rows lib file_path card_no b (row # rows) =
        t' # cc_rows lib file_path card_no True rows"
    with Cons.prems have "t = t' \<or> t \<in> set (cc_rows lib file_path card_no True rows)"
      by simp
    then show ?thesis
    proof
      assume "t = t'"
      with t' show ?thesis by simp
    next
      assume "t \<in> set (cc_rows lib file_path card_no True rows)"
      from Cons.IH [OF this] show ?thesis by auto
    qed
  qed
qed

lemma cc_transaction_Some:
  assumes "cc_transaction lib file_path card_no row = Some t"
  shows "\<exists>a. final_amount lib row = Some a \<and> amount t = fneg (fabs a) \<and>
    currency t = asc ''ILS'' \<and> source t = asc ''credit_card''"
  using assms
  by (auto simp: cc_transaction_def Let_def split: option.splits if_splits)

lemma final_amount_charged:
  "parse_amount lib (cell_at row 4) = Some a \<Longrightarrow> final_amount lib row = Some a"
  by (simp add: final_amount_def)

text \<open>
  Claim C5, as amended. Every transaction the credit-card parser produces comes from a
  row of the sheet, and when the charge amount of that row (column 4) parses, the
  transaction carries the currency code \<open>ILS\<close> and minus the absolute charge amount,
  whatever the currency cell holds.
\<close>

theorem charged_rows_carry_ILS:
  assumes "t \<in> set (parse_credit_card_statement lib file_path card_no df)"
  shows "\<exists>row\<in>set df. cc_transaction lib file_path card_no row = Some t \<and>
    (\<forall>a. parse_amount lib (cell_at row 4) = Some a \<longrightarrow>
       currency t = asc ''ILS'' \<and> amount t = fneg (fabs a))"
proof -
  from assms obtain row where row: "row \<in> set df"
    and t: "cc_transaction lib file_path card_no row = Some t"
    unfolding parse_credit_card_statement_def by (blast dest: cc_rows_from_row)
  have "currency t = asc ''ILS'' \<and> amount t = fneg (fabs a)"
    if "parse_amount lib (cell_at row 4) = Some a" for a
    using cc_transaction_Some [OF t] final_amount_charged [OF that] by auto
  with row t show ?thesis by blast
qed

lemmas parser_eval =
  parse_credit_card_statement_def cc_transaction_def final_amount_def parse_amount_def
  parse_date_def date_formats_def cell_at_def cell_str_def currency_str_def header_date_def
  header_business_def totals_marker_def not_posted_def strip_def isspace_def asc_def
  demo_lib_def header_row_def usd_row_def uncharged_row_def nan_row_def card_sheet_def
  card_tx_def midnight_def

text \<open>
  Claim C5 as stated fails on a row whose currency cell is the dollar sign: the source
  computes \<open>USD\<close> from the cell and the transaction carries \<open>ILS\<close>.
\<close>

theorem dollar_row_counterexample:
  "parse_credit_card_statement demo_lib (asc ''card_4580.xlsx'') (Some (asc ''4580''))
     [header_row, usd_row] = [amazon_tx] \<and>
   currency amazon_tx = asc ''ILS'' \<and> currency_str demo_lib usd_row = asc ''USD''"
  by (simp add: parser_eval amazon_tx_def)

theorem charged_rows_carry_ILS_witness:
  "amazon_tx \<in> set (parse_credit_card_statement demo_lib (asc ''card_4580.xlsx'')
     (Some (asc ''4580'')) card_sheet) \<and>
   cc_transaction demo_lib (asc ''card_4580.xlsx'') (Some (asc ''4580'')) usd_row =
     Some amazon_tx \<and>
   parse_amount demo_lib (cell_at usd_row 4) = Some (Fin 36.5) \<and>
   currency amazon_tx = asc ''ILS'' \<and> amount amazon_tx = Fin (- 36.5)"
proof -
  have h: "amazon_tx \<in> set (parse_credit_card_statement demo_lib (asc ''card_4580.xlsx'')
     (Some (asc ''4580'')) card_sheet)"
    by (simp add: parser_eval amazon_tx_def)
  from charged_rows_carry_ILS [OF h] h show ?thesis
    by (simp add: parser_eval amazon_tx_def)
qed






section \<open>The categorizer: overrides\<close>

lemma map_of_dict_set: "map_of (dict_set k v d) = (map_of d)(k \<mapsto> v)"
  by (induction d) (auto simp: fun_eq_iff)

lemma keys_dict_set:
  "map fst (dict_set k v d) = (if k \<in> fst ` set d then map fst d else map fst d @ [k])"
  by (induction d) (auto simp: image_iff, force+)

text \<open>
  Claim C9. With a category key that is neither a key of the catalog nor \<open>other\<close>,
  \<open>add_override\<close> returns \<open>False\<close> and the categorizer it was given: the overrides are
  as they were. With any other key it returns \<open>True\<close>; the overrides then map the
  description to the key and every other pattern as before, a new pattern goes to the
  end, the overrides file holds the new overrides, and the catalog is unchanged.
\<close>

theorem add_override_checks_key:
  "(map_of (categories c) category_key = None \<and> category_key \<noteq> other_key \<longrightarrow>
      add_override c descr category_key = (False, c) \<and>
      list_overrides (snd (add_override c descr category_key)) = list_overrides c) \<and>
   (map_of (categories c) category_key \<noteq> None \<or> category_key = other_key \<longrightarrow>
      fst (add_override c descr category_key) = True \<and>
      map_of (list_overrides (snd (add_override c descr category_key))) =
        (map_of (list_overrides c))(descr \<mapsto> category_key) \<and>
      map fst (list_overrides (snd (add_override c descr category_key))) =
        (if descr \<in> fst ` set (list_overrides c) then map fst (list_overrides c)
         else map fst (list_overrides c) @ [descr]) \<and>
      overrides_file (snd (add_override c descr category_key)) =
        Some (list_overrides (snd (add_override c descr category_key))) \<and>
      categories (snd (add_override c descr category_key)) = categories c)"
  by (auto simp: add_override_def list_overrides_def save_overrides_def map_of_dict_set
      keys_dict_set)

lemmas categorizer_eval =
  categorize_def add_override_def save_overrides_def list_overrides_def cat_result_def
  strip_def isspace_def asc_def ascii_lower_def other_key_def food_data_def home_data_def
  other_data_def stale_categorizer_def no_other_categorizer_def demo_categorizer_def

theorem add_override_checks_key_witness:
  "map_of (categories demo_categorizer) (asc ''travel'') = None \<and> asc ''travel'' \<noteq> other_key \<and>
   add_override demo_categorizer (asc ''bus'') (asc ''travel'') = (False, demo_categorizer) \<and>
   map_of (categories demo_categorizer) (asc ''food'') = Some food_data \<and>
   fst (add_override demo_categorizer (asc ''bus'') (asc ''food'')) = True \<and>
   list_overrides (snd (add_override demo_categorizer (asc ''bus'') (asc ''food''))) =
     [(asc ''supermarket'', asc ''home''), (asc ''bus'', asc ''food'')]"
  using add_override_checks_key [of demo_categorizer "asc ''travel''" "asc ''bus''"]
    add_override_checks_key [of demo_categorizer "asc ''food''" "asc ''bus''"]
  by (simp add: categorizer_eval)

lemma partial_match_key:
  "partial_match lower cats dl ovs = Some (k, names) \<Longrightarrow> k \<in> fst ` set cats"
proof (induction ovs)
  case Nil
  then show ?case by simp
next
  case (Cons ov ovs)
  obtain pat ck where ov: "ov = (pat, ck)" by (cases ov)
  show ?case
  proof (cases "partial_match lower cats dl (ov # ovs) = partial_match lower cats dl ovs")
    case True
    with Cons show ?thesis by simp
  next
    case False
    then obtain cat where "map_of cats ck = Some cat"
      and "partial_match lower cats dl (ov # ovs) = Some (cat_result ck cat)"
      unfolding ov by (auto split: if_splits option.splits)
    with Cons.prems have "k = ck" and "(ck, cat) \<in> set cats"
      by (auto simp: cat_result_def dest: map_of_SomeD)
    then show ?thesis by force
  qed
qed

lemma keyword_match_key:
  "keyword_match lower dl cats = Some (k, names) \<Longrightarrow> k \<in> fst ` set cats"
  by (induction cats) (auto simp: cat_result_def split: if_splits)

text \<open>
  Claim C8 as stated fails when the category key of the override is not a key of the
  catalog: the guard of \<open>categorize\<close> passes the override over and the keyword match
  decides. The overrides file may hold such a key, and \<open>add_override\<close> stores the key
  \<open>other\<close> also for a catalog without it.
\<close>

theorem stale_override_counterexample:
  "map_of (overrides stale_categorizer) (strip (asc ''supermarket'')) = Some (asc ''groceries'') \<and>
   categorize ascii_lower stale_categorizer (asc ''supermarket'') =
     (asc ''food'', [1502, 1494, 1493, 1503], asc ''Food'') \<and>
   add_override no_other_categorizer (asc ''supermarket'') other_key =
     (True, \<lparr>categories = [(asc ''food'', food_data)],
             overrides = [(asc ''supermarket'', other_key)],
             overrides_file = Some [(asc ''supermarket'', other_key)]\<rparr>) \<and>
   categorize ascii_lower
     \<lparr>categories = [(asc ''food'', food_data)],
      overrides = [(asc ''supermarket'', other_key)],
      overrides_file = Some [(asc ''supermarket'', other_key)]\<rparr> (asc ''supermarket'') =
     (asc ''food'', [1502, 1494, 1493, 1503], asc ''Food'')"
  by (simp add: categorizer_eval)

text \<open>
  Claim C8, as amended. Let the trimmed description be a pattern of the overrides. When
  the category key of that override is a key of the catalog, \<open>categorize\<close> returns that
  key with the names of its catalog entry, whatever the keywords of the catalog are.
  When it is not, the override is passed over and the later rules decide: the result is
  that of the first override in order that matches partially and has a key of the
  catalog, else that of the first category in order with a keyword in the description,
  else the default \<open>other\<close>; the key returned is a key of the catalog or \<open>other\<close>, so it
  is not the key of the override unless that key is \<open>other\<close>.
\<close>

theorem exact_override_wins:
  assumes "map_of (overrides c) (strip descr) = Some cat_key"
  shows "(\<forall>cat. map_of (categories c) cat_key = Some cat \<longrightarrow>
       categorize lower c descr = cat_result cat_key cat \<and>
       fst (categorize lower c descr) = cat_key) \<and>
    (map_of (categories c) cat_key = None \<longrightarrow>
       categorize lower c descr =
         (case partial_match lower (categories c) (lower descr) (overrides c) of
            Some r \<Rightarrow> r
          | None \<Rightarrow>
              (case keyword_match lower (lower descr) (categories c) of
                 Some r \<Rightarrow> r
               | None \<Rightarrow>
                   (case map_of (categories c) other_key of
                      Some other_cat \<Rightarrow>
                        (other_key,
                         (case cat_name other_cat of None \<Rightarrow> other_key | Some n \<Rightarrow> n),
                         (case cat_name_en other_cat of None \<Rightarrow> asc ''Other''
                          | Some n \<Rightarrow> n))
                    | None \<Rightarrow> (other_key, other_key, asc ''Other'')))) \<and>
       (fst (categorize lower c descr) \<in> fst ` set (categories c) \<or>
        fst (categorize lower c descr) = other_key) \<and>
       (cat_key \<noteq> other_key \<longrightarrow> fst (categorize lower c descr) \<noteq> cat_key))"
proof -
  have hit: "categorize lower c descr = cat_result cat_key cat \<and>
      fst (categorize lower c descr) = cat_key"
    if "map_of (categories c) cat_key = Some cat" for cat
    using assms that by (simp add: categorize_def Let_def cat_result_def)
  have miss: "categorize lower c descr =
         (case partial_match lower (categories c) (lower descr) (overrides c) of
            Some r \<Rightarrow> r
          | None \<Rightarrow>
              (case keyword_match lower (lower descr) (categories c) of
                 Some r \<Rightarrow> r
               | None \<Rightarrow>
                   (case map_of (categories c) other_key of
                      Some other_cat \<Rightarrow>
                        (other_key,
                         (case cat_name other_cat of None \<Rightarrow> other_key | Some n \<Rightarrow> n),
                         (case cat_name_en other_cat of None \<Rightarrow> asc ''Other''
                          | Some n \<Rightarrow> n))
                    | None \<Rightarrow> (other_key, other_key, asc ''Other''))))"
    if "map_of (categories c) cat_key = None"
    using assms that by (simp add: categorize_def Let_def)
  have range: "fst (categorize lower c descr) \<in> fst ` set (categories c) \<or>
      fst (categorize lower c descr) = other_key"
    if none: "map_of (categories c) cat_key = None"
    unfolding miss [OF none]
    by (auto split: option.splits dest: partial_match_key keyword_match_key)
  have other: "fst (categorize lower c descr) \<noteq> cat_key"
    if none: "map_of (categories c) cat_key = None" and "cat_key \<noteq> other_key"
  proof -
    from none have "cat_key \<notin> fst ` set (categories c)"
      by (simp add: map_of_eq_None_iff)
    with range [OF none] that(2) show ?thesis by auto
  qed
  from hit miss range other show ?thesis by blast
qed

theorem exact_override_wins_witness:
  "map_of (overrides demo_categorizer) (strip (asc '' supermarket '')) = Some (asc ''home'') \<and>
   map_of (categories demo_categorizer) (asc ''home'') = Some home_data \<and>
   keyword_match ascii_lower (ascii_lower (asc '' supermarket '')) (categories demo_categorizer) =
     Some (cat_result (asc ''food'') food_data) \<and>
   categorize ascii_lower demo_categorizer (asc '' supermarket '') =
     (asc ''home'', asc ''home'', asc ''Home'') \<and>
   map_of (overrides stale_categorizer) (strip (asc ''supermarket'')) = Some (asc ''groceries'') \<and>
   map_of (categories stale_categorizer) (asc ''groceries'') = None \<and>
   asc ''groceries'' \<noteq> other_key \<and>
   partial_match ascii_lower (categories stale_categorizer) (ascii_lower (asc ''supermarket''))
     (overrides stale_categorizer) = None \<and>
   keyword_match ascii_lower (ascii_lower (asc ''supermarket'')) (categories stale_categorizer) =
     Some (cat_result (asc ''food'') food_data) \<and>
   fst (categorize ascii_lower stale_categorizer (asc ''supermarket'')) = asc ''food''"
proof -
  have h1: "map_of (overrides demo_categorizer) (strip (asc '' supermarket '')) =
      Some (asc ''home'')"
    by (simp add: categorizer_eval)
  have h2: "map_of (categories demo_categorizer) (asc ''home'') = Some home_data"
    by (simp add: categorizer_eval)
  have g1: "map_of (overrides stale_categorizer) (strip (asc ''supermarket'')) =
      Some (asc ''groceries'')"
    by (simp add: categorizer_eval)
  have g2: "map_of (categories stale_categorizer) (asc ''groceries'') = None"
    and g3: "asc ''groceries'' \<noteq> other_key"
    by (simp_all add: categorizer_eval)
  have loops: "keyword_match ascii_lower (ascii_lower (asc '' supermarket ''))
      (categories demo_categorizer) = Some (cat_result (asc ''food'') food_data) \<and>
    partial_match ascii_lower (categories stale_categorizer)
      (ascii_lower (asc ''supermarket'')) (overrides stale_categorizer) = None \<and>
    keyword_match ascii_lower (ascii_lower (asc ''supermarket''))
      (categories stale_categorizer) = Some (cat_result (asc ''food'') food_data)"
    by (simp add: categorizer_eval)
  from exact_override_wins [OF h1, of ascii_lower] h2
  have hit: "categorize ascii_lower demo_categorizer (asc '' supermarket '') =
      (asc ''home'', asc ''home'', asc ''Home'')"
    by (simp add: cat_result_def home_data_def)
  from exact_override_wins [OF g1, of ascii_lower] g2 loops
  have miss: "fst (categorize ascii_lower stale_categorizer (asc ''supermarket'')) = asc ''food''"
    by (simp add: cat_result_def)
  from h1 h2 g1 g2 g3 loops hit miss show ?thesis by blast
qed

end
